theory Spec2Isabelle
  imports Main "HOL-Library.Sublist" "HOL-Library.Multiset" "HOL-Library.List_Lexorder"
    "HOL-Library.Char_ord"
begin

section \<open>JavaScript and JSON values\<close>

text \<open>
  The front-end components of the repository are JavaScript; what they store comes
  mostly from \<^verbatim>\<open>response.json()\<close>.  A parsed JSON value is a \<open>json\<close>; an object is
  the association list of its own properties (the first binding of a key is the one a
  property read sees).  Numbers are restricted to integers: no function modelled here
  computes with a fractional number.  The JavaScript value \<^verbatim>\<open>undefined\<close> is not a JSON
  value: an expression that may be undefined has type \<open>json option\<close>, with \<open>None\<close> for
  \<^verbatim>\<open>undefined\<close>.

  Strings are \<open>string\<close>; a character stands for one code unit below 256 (Latin-1).
\<close>

datatype json =
    JNull
  | JBool bool
  | JNum int
  | JStr string
  | JArr "json list"
  | JObj "(string \<times> json) list"

text \<open>An exception value; the code reads only its \<^verbatim>\<open>message\<close>.\<close>

datatype js_error = JsError string

fun message :: "js_error \<Rightarrow> string" where
  "message (JsError m) = m"

text \<open>Truthiness, as \<^verbatim>\<open>if (v)\<close>, \<^verbatim>\<open>!v\<close> and \<^verbatim>\<open>v || d\<close> test it.\<close>

fun truthy :: "json \<Rightarrow> bool" where
  "truthy JNull = False"
| "truthy (JBool b) = b"
| "truthy (JNum n) = (n \<noteq> 0)"
| "truthy (JStr s) = (s \<noteq> [])"
| "truthy (JArr xs) = True"
| "truthy (JObj kvs) = True"

fun truthy_opt :: "json option \<Rightarrow> bool" where
  "truthy_opt None = False"
| "truthy_opt (Some v) = truthy v"

text \<open>\<^verbatim>\<open>a || d\<close> where \<open>a\<close> may be undefined.\<close>

fun or_else :: "json option \<Rightarrow> json \<Rightarrow> json" where
  "or_else None d = d"
| "or_else (Some v) d = (if truthy v then v else d)"

text \<open>
  A property read \<^verbatim>\<open>v.k\<close> on a parsed value.  Reading a property of \<^verbatim>\<open>null\<close> throws a
  TypeError (the wording of its message is the engine's).  On an object the own property
  is found or the result is undefined.  The keys read by the modelled code (\<^verbatim>\<open>detail\<close>,
  \<^verbatim>\<open>id\<close>, \<^verbatim>\<open>tags\<close>, \<^verbatim>\<open>messages\<close>, ...) are not defined by any built-in prototype, so on
  every other value the result is undefined.  A call of a method the value does not
  have throws a TypeError as well.
\<close>

definition null_read :: js_error where
  "null_read = JsError ''Cannot read properties of null''"

definition not_a_function :: "string \<Rightarrow> js_error" where
  "not_a_function f = JsError (f @ '' is not a function'')"

fun own_prop :: "json \<Rightarrow> string \<Rightarrow> json option" where
  "own_prop (JObj kvs) k = map_of kvs k"
| "own_prop v k = None"

definition get_prop :: "json \<Rightarrow> string \<Rightarrow> js_error + json option" where
  "get_prop v k = (if v = JNull then Inl null_read else Inr (own_prop v k))"

text \<open>Decimal digits of a natural number, for number-to-string conversion.\<close>

fun digits :: "nat \<Rightarrow> string" where
  "digits n = (if n < 10 then [char_of (48 + n)]
               else digits (n div 10) @ [char_of (48 + n mod 10)])"

declare digits.simps [simp del]

definition show_int :: "int \<Rightarrow> string" where
  "show_int i = (if i < 0 then CHR ''-'' # digits (nat (- i)) else digits (nat i))"

text \<open>
  \<^verbatim>\<open>String(v)\<close>, the conversion a template literal applies.  An array is the
  comma-separated conversion of its elements, with \<^verbatim>\<open>null\<close> elements empty.  Integers
  are written in decimal, as JavaScript writes them below \<open>10\<^sup>2\<^sup>1\<close>.
\<close>

fun intersperse :: "string \<Rightarrow> string list \<Rightarrow> string" where
  "intersperse sep [] = []"
| "intersperse sep [x] = x"
| "intersperse sep (x # y # ys) = x @ sep @ intersperse sep (y # ys)"

fun to_string :: "json \<Rightarrow> string" where
  "to_string JNull = ''null''"
| "to_string (JBool b) = (if b then ''true'' else ''false'')"
| "to_string (JNum n) = show_int n"
| "to_string (JStr s) = s"
| "to_string (JArr xs) =
     intersperse '','' (map (\<lambda>x. if x = JNull then [] else to_string x) xs)"
| "to_string (JObj kvs) = ''[object Object]''"

subsection \<open>Strings\<close>

text \<open>
  \<^verbatim>\<open>String.prototype.trim\<close> removes white space and line terminators at both ends;
  below 256 these are TAB, LF, VT, FF, CR, SPACE and NBSP.
\<close>

definition is_white :: "char \<Rightarrow> bool" where
  "is_white c = (of_char c \<in> {9, 10, 11, 12, 13, 32, 160 :: nat})"

definition trim :: "string \<Rightarrow> string" where
  "trim s = rev (dropWhile is_white (rev (dropWhile is_white s)))"

text \<open>\<^verbatim>\<open>toLowerCase\<close>, code unit by code unit: A-Z and the Latin-1 capitals.\<close>

definition lower_char :: "char \<Rightarrow> char" where
  "lower_char c =
     (let n = (of_char c :: nat)
      in if (65 \<le> n \<and> n \<le> 90) \<or> (192 \<le> n \<and> n \<le> 222 \<and> n \<noteq> 215)
         then char_of (n + 32) else c)"

definition toLowerCase :: "string \<Rightarrow> string" where
  "toLowerCase s = map lower_char s"

definition endsWith :: "string \<Rightarrow> string \<Rightarrow> bool" where
  "endsWith s suf = suffix suf s"


subsection \<open>HTTP\<close>

text \<open>
  What \<^verbatim>\<open>await fetch(...)\<close> gives: the promise rejects (network failure) with an error
  message, or resolves to a response with its \<^verbatim>\<open>ok\<close> flag and a body.  The body is
  what \<^verbatim>\<open>await response.json()\<close> gives: a parsed value, or a rejection when the body is
  not JSON.
\<close>

datatype body = Json json | NotJson string

datatype fetch_result = Rejected string | Resolved bool body

text \<open>
  A request as passed to \<^verbatim>\<open>fetch\<close>: method, URL and the value whose serialisation is
  the body, when there is one.
\<close>

datatype request = Request string string "json option"

fun req_method :: "request \<Rightarrow> string" where
  "req_method (Request m u b) = m"

fun req_url :: "request \<Rightarrow> string" where
  "req_url (Request m u b) = u"

fun req_body :: "request \<Rightarrow> json option" where
  "req_body (Request m u b) = b"

section \<open>The PDF upload component (\<^verbatim>\<open>pdf-upload.js\<close>)\<close>

text \<open>
  A browser \<^verbatim>\<open>File\<close> is seen through its \<^verbatim>\<open>name\<close> and \<^verbatim>\<open>type\<close>.  The React state
  of the component is a record; a state setter is a record update and every handler
  returns the state after its updates are applied.
\<close>

record pdf_file =
  file_name :: string
  file_type :: string

record upload_result =
  res_fileName :: string
  res_success :: bool
  res_message :: "json option"

record upload_status =
  status_success :: bool
  status_message :: string
  status_details :: "upload_result list option"

record upload_state =
  files :: "pdf_file list"
  isDragging :: bool
  isUploading :: bool
  uploadStatus :: "upload_status option"
  selectedCollection :: string
  tags :: string

definition is_pdf :: "pdf_file \<Rightarrow> bool" where
  "is_pdf f =
     (file_type f = ''application/pdf'' \<or> endsWith (toLowerCase (file_name f)) ''.pdf'')"

definition handleFiles :: "pdf_file list \<Rightarrow> upload_state \<Rightarrow> upload_state" where
  "handleFiles newFiles st =
     (let pdfFiles = filter is_pdf newFiles
      in if length pdfFiles = 0
         then st\<lparr>uploadStatus := Some \<lparr>status_success = False,
                  status_message = ''Only PDF files are allowed.'',
                  status_details = None\<rparr>\<rparr>
         else st\<lparr>files := files st @ pdfFiles, uploadStatus := None\<rparr>)"

text \<open>
  The form data of one upload, as the value of its fields; the file part is named by the
  file's name.  \<^verbatim>\<open>tags\<close> is appended only when the tags input is not empty.
\<close>

definition upload_request :: "string \<Rightarrow> string \<Rightarrow> pdf_file \<Rightarrow> request" where
  "upload_request coll tgs f =
     Request ''POST'' ''/api/v1/documents/upload''
       (Some (JObj ([(''file'', JStr (file_name f)), (''collection_name'', JStr coll)]
                    @ (if tgs \<noteq> [] then [(''tags'', JStr tgs)] else []))))"

text \<open>
  The body of the callback mapped over the files, after its request is sent: the result
  for one file, or the error that rejects its promise.
\<close>

fun upload_one :: "pdf_file \<Rightarrow> fetch_result \<Rightarrow> js_error + upload_result" where
  "upload_one f (Rejected m) = Inl (JsError m)"
| "upload_one f (Resolved ok (NotJson m)) = Inl (JsError m)"
| "upload_one f (Resolved ok (Json result)) =
     (if ok
      then (case get_prop result ''message'' of
              Inl e \<Rightarrow> Inl e
            | Inr v \<Rightarrow> Inr \<lparr>res_fileName = file_name f, res_success = True, res_message = v\<rparr>)
      else (case get_prop result ''detail'' of
              Inl e \<Rightarrow> Inl e
            | Inr d \<Rightarrow> Inr \<lparr>res_fileName = file_name f, res_success = False,
                           res_message = Some (or_else d (JStr ''Upload failed''))\<rparr>))"

text \<open>
  \<^verbatim>\<open>Promise.all\<close>: the results in the order of the files when every promise fulfils,
  otherwise a rejection.  Which rejection wins is a matter of timing; the model takes the
  one of the lowest index, which only fixes the text of the message shown.
\<close>

fun promise_all :: "(js_error + 'a) list \<Rightarrow> js_error + 'a list" where
  "promise_all [] = Inr []"
| "promise_all (Inl e # rs) = Inl e"
| "promise_all (Inr x # rs) =
     (case promise_all rs of Inl e \<Rightarrow> Inl e | Inr xs \<Rightarrow> Inr (x # xs))"

text \<open>
  \<open>uploadFiles env st\<close>: \<open>env i\<close> is the outcome of the request for the \<open>i\<close>-th file.
  The result is the state after the handler has finished and the requests it issued.
\<close>

definition uploadFiles ::
  "(nat \<Rightarrow> fetch_result) \<Rightarrow> upload_state \<Rightarrow> upload_state \<times> request list" where
  "uploadFiles env st =
     (if length (files st) = 0
      then (st\<lparr>uploadStatus := Some \<lparr>status_success = False,
                 status_message = ''Please select at least one PDF file to upload.'',
                 status_details = None\<rparr>\<rparr>, [])
      else if selectedCollection st = []
      then (st\<lparr>uploadStatus := Some \<lparr>status_success = False,
                 status_message = ''Please select a collection.'',
                 status_details = None\<rparr>\<rparr>, [])
      else
        let reqs = map (upload_request (selectedCollection st) (tags st)) (files st);
            outs = map (\<lambda>i. upload_one (files st ! i) (env i)) [0 ..< length (files st)]
        in case promise_all outs of
             Inl e \<Rightarrow>
               (st\<lparr>isUploading := False,
                   uploadStatus := Some \<lparr>status_success = False,
                     status_message = ''Error uploading files: '' @ message e,
                     status_details = None\<rparr>\<rparr>, reqs)
           | Inr results \<Rightarrow>
               let allSuccessful = list_all res_success results
               in (st\<lparr>isUploading := False,
                      uploadStatus := Some \<lparr>status_success = allSuccessful,
                        status_message =
                          (if allSuccessful
                           then ''Successfully uploaded '' @ digits (length results) @ '' file(s).''
                           else ''Some files failed to upload. See details below.''),
                        status_details = Some results\<rparr>,
                      files := (if allSuccessful then [] else files st)\<rparr>, reqs))"

text \<open>The \<^verbatim>\<open>ok\<close> flag of the response a request got, false when it got none.\<close>

fun response_ok :: "fetch_result \<Rightarrow> bool" where
  "response_ok (Rejected m) = False"
| "response_ok (Resolved ok b) = ok"

text \<open>
  \<open>upload_ok r\<close>: the request was answered with an ok response whose body parses to a
  value other than \<^verbatim>\<open>null\<close>; these are the outcomes for which the callback returns a
  result with \<^verbatim>\<open>success: true\<close>.
\<close>

definition upload_ok :: "fetch_result \<Rightarrow> bool" where
  "upload_ok r = (\<exists>v. r = Resolved True (Json v) \<and> v \<noteq> JNull)"

subsection \<open>Sample inputs\<close>

definition sample_files :: "pdf_file list" where
  "sample_files = [\<lparr>file_name = ''Report.PDF'', file_type = []\<rparr>,
                   \<lparr>file_name = ''notes.txt'', file_type = ''text/plain''\<rparr>,
                   \<lparr>file_name = ''scan'', file_type = ''application/pdf''\<rparr>]"

definition sample_upload_state :: upload_state where
  "sample_upload_state =
     \<lparr>files = [\<lparr>file_name = ''old.pdf'', file_type = ''application/pdf''\<rparr>],
      isDragging = False, isUploading = False, uploadStatus = None,
      selectedCollection = ''docs'', tags = []\<rparr>"

text \<open>Every upload is answered 200 with the JSON body the API documents.\<close>

definition uploads_accepted :: "nat \<Rightarrow> fetch_result" where
  "uploads_accepted i = Resolved True (Json (JObj [(''message'', JStr ''Document uploaded'')]))"

text \<open>Every upload is answered 200 with a body that is not JSON (an HTML page).\<close>

definition uploads_answered_html :: "nat \<Rightarrow> fetch_result" where
  "uploads_answered_html i = Resolved True (NotJson ''Unexpected token < in JSON at position 0'')"

section \<open>The tag-based chat component\<close>

text \<open>
  The Vue component with tag selection, conversations and the sidebar hooks.  Each
  \<^verbatim>\<open>ref\<close> of its \<^verbatim>\<open>setup()\<close> is a field of the state; a ref that the code assigns from a
  parsed response is a \<open>json\<close>, and the two refs that can be assigned an absent property
  (\<^verbatim>\<open>conversationHistory\<close>, \<^verbatim>\<open>lastSources\<close>) are \<open>json option\<close>.  The deprecated
  collection refs are left out.

  An \<^verbatim>\<open>async\<close> handler is modelled as run to completion with the outcomes of its awaited
  requests given as arguments: no other handler runs between its steps.  A call that is
  not awaited contributes the request it sends before its first \<^verbatim>\<open>await\<close>; what it does
  when its response arrives is a later step.  Watchers only write \<^verbatim>\<open>localStorage\<close> and
  schedule a debounced request, and are not part of a handler's result.
\<close>

record chat_state =
  availableTags :: json
  tagCounts :: json
  selectedTags :: json
  includeUntagged :: json
  tagSearchQuery :: string
  tagDropdownOpen :: bool
  selectedModel :: json
  queryText :: string
  isLoading :: bool
  error :: json
  results :: json
  conversationHistory :: "json option"
  lastSources :: "json option"
  conversations :: json
  currentConversationId :: json
  isLoadingConversations :: bool

text \<open>The refs as \<^verbatim>\<open>setup()\<close> creates them.\<close>

definition initial_state :: chat_state where
  "initial_state =
     \<lparr>availableTags = JArr [], tagCounts = JObj [], selectedTags = JArr [],
      includeUntagged = JBool True, tagSearchQuery = [], tagDropdownOpen = False,
      selectedModel = JStr [], queryText = [], isLoading = False, error = JStr [],
      results = JNull, conversationHistory = Some (JArr []), lastSources = Some (JArr []),
      conversations = JArr [], currentConversationId = JNull,
      isLoadingConversations = False\<rparr>"






definition canSubmit :: "chat_state \<Rightarrow> bool" where
  "canSubmit s = (length (trim (queryText s)) > 0)"

text \<open>A \<^verbatim>\<open>catch (err)\<close> block that sets the displayed error from the message.\<close>

definition caught :: "string \<Rightarrow> js_error \<Rightarrow> chat_state \<Rightarrow> chat_state" where
  "caught pre e s = s\<lparr>error := JStr (pre @ message e)\<rparr>"

subsection \<open>\<^verbatim>\<open>fetchTags\<close>\<close>

definition tags_request :: request where
  "tags_request = Request ''GET'' ''/api/v1/tags/'' None"


subsection \<open>\<^verbatim>\<open>onMounted\<close>\<close>






subsection \<open>\<^verbatim>\<open>selectConversation\<close>\<close>

text \<open>
  Conversation identifiers are strings: they are the last segment of the resource path.
  \<^verbatim>\<open>conversation.tags.join\<close> exists on arrays only.
\<close>

definition conversation_url :: "string \<Rightarrow> string" where
  "conversation_url conversationId = ''/api/v1/conversations/'' @ conversationId"


subsection \<open>\<^verbatim>\<open>submitQuery\<close>\<close>

text \<open>
  \<^verbatim>\<open>window.refreshSidebarConversations\<close> is defined by another script: it is absent, or
  it returns, or it throws.  Requests that it sends itself are not requests of
  \<^verbatim>\<open>submitQuery\<close>.
\<close>

datatype sidebar = NoSidebar | SidebarReturns | SidebarThrows string

text \<open>
  What a run of \<^verbatim>\<open>submitQuery\<close> leaves: the state, the requests it issued in order, and
  the error with which its promise rejects when one escapes its \<^verbatim>\<open>try\<close>.
\<close>

record outcome =
  after :: chat_state
  issued :: "request list"
  uncaught :: "js_error option"

definition user_message :: "string \<Rightarrow> json" where
  "user_message q = JObj [(''role'', JStr ''user''), (''content'', JStr q)]"

text \<open>\<^verbatim>\<open>conversationHistory.value.push(m)\<close> and \<^verbatim>\<open>.pop()\<close>; both exist on arrays only.\<close>

fun push_history :: "json option \<Rightarrow> json \<Rightarrow> js_error + json option" where
  "push_history (Some (JArr xs)) m = Inr (Some (JArr (xs @ [m])))"
| "push_history (Some JNull) m = Inl null_read"
| "push_history None m = Inl (JsError ''Cannot read properties of undefined'')"
| "push_history (Some v) m = Inl (not_a_function ''conversationHistory.value.push'')"

fun pop_history :: "json option \<Rightarrow> js_error + json option" where
  "pop_history (Some (JArr xs)) = Inr (Some (JArr (butlast xs)))"
| "pop_history (Some JNull) = Inl null_read"
| "pop_history None = Inl (JsError ''Cannot read properties of undefined'')"
| "pop_history (Some v) = Inl (not_a_function ''conversationHistory.value.pop'')"

text \<open>\<^verbatim>\<open>conversationHistory.value.slice(0, -1)\<close>.\<close>

fun slice_history :: "json option \<Rightarrow> js_error + json" where
  "slice_history (Some (JArr xs)) = Inr (JArr (butlast xs))"
| "slice_history (Some (JStr x)) = Inr (JStr (butlast x))"
| "slice_history (Some JNull) = Inl null_read"
| "slice_history None = Inl (JsError ''Cannot read properties of undefined'')"
| "slice_history (Some v) = Inl (not_a_function ''conversationHistory.value.slice'')"

definition chat_request_data :: "string \<Rightarrow> json \<Rightarrow> chat_state \<Rightarrow> json" where
  "chat_request_data currentQuery history s =
     JObj ([(''query'', JStr currentQuery),
            (''history'', history),
            (''tags'', selectedTags s),
            (''include_untagged'', includeUntagged s)]
           @ (if truthy (selectedModel s) then [(''model'', selectedModel s)] else [])
           @ (if truthy (currentConversationId s)
              then [(''conversation_id'', currentConversationId s)] else []))"

text \<open>
  \<^verbatim>\<open>updateConversationTagPreferences(id)\<close>, called without \<^verbatim>\<open>await\<close>: it sends one PUT
  and afterwards only logs.
\<close>

definition tag_preferences_request :: "json \<Rightarrow> chat_state \<Rightarrow> request" where
  "tag_preferences_request conversationId s =
     Request ''PUT'' (conversation_url (to_string conversationId))
       (Some (JObj [(''tags'', selectedTags s), (''include_untagged'', includeUntagged s)]))"

text \<open>
  The \<^verbatim>\<open>try\<close> block: the state where it ends, the requests issued, and the error thrown
  when it ends by a throw.
\<close>

definition submit_try ::
  "fetch_result \<Rightarrow> sidebar \<Rightarrow> string \<Rightarrow> chat_state
     \<Rightarrow> chat_state \<times> request list \<times> js_error option" where
  "submit_try r_chat sb currentQuery s1 =
     (case slice_history (conversationHistory s1) of
        Inl e \<Rightarrow> (s1, [], Some e)
      | Inr history \<Rightarrow>
          let req = Request ''POST'' ''/api/v1/chat/''
                      (Some (chat_request_data currentQuery history s1))
          in case r_chat of
               Rejected m \<Rightarrow> (s1, [req], Some (JsError m))
             | Resolved ok b \<Rightarrow>
                 if ok
                 then (case b of
                     NotJson m \<Rightarrow> (s1, [req], Some (JsError m))
                   | Json data \<Rightarrow>
                       let s2 = s1\<lparr>results := data\<rparr>
                       in if data = JNull then (s2, [req], Some null_read)
                          else
                            let s3 = s2\<lparr>conversationHistory := own_prop data ''history'',
                                         lastSources := own_prop data ''sources''\<rparr>;
                                continued =
                                  (case own_prop data ''conversation_id'' of
                                     Some c \<Rightarrow>
                                       if truthy c
                                       then (let s4 = s3\<lparr>currentConversationId := c\<rparr>
                                             in (s4, [req, tag_preferences_request c s4]))
                                       else (s3, [req])
                                   | None \<Rightarrow> (s3, [req]))
                            in case sb of
                                 SidebarThrows m \<Rightarrow> (fst continued, snd continued, Some (JsError m))
                               | _ \<Rightarrow> (fst continued, snd continued @ [tags_request], None))
                 else (case pop_history (conversationHistory s1) of
                     Inl e \<Rightarrow> (s1, [req], Some e)
                   | Inr popped \<Rightarrow>
                       let s2 = s1\<lparr>conversationHistory := popped, queryText := currentQuery\<rparr>
                       in case b of
                            NotJson m \<Rightarrow> (s2, [req], Some (JsError m))
                          | Json errorData \<Rightarrow>
                              if errorData = JNull then (s2, [req], Some null_read)
                              else (s2\<lparr>error := or_else (own_prop errorData ''detail'')
                                          (JStr ''Failed to process query. Please try again.'')\<rparr>,
                                    [req], None)))"

definition submitQuery :: "fetch_result \<Rightarrow> sidebar \<Rightarrow> chat_state \<Rightarrow> outcome" where
  "submitQuery r_chat sb s =
     (if \<not> canSubmit s then \<lparr>after = s, issued = [], uncaught = None\<rparr>
      else
        let currentQuery = queryText s
        in case push_history (conversationHistory s) (user_message currentQuery) of
             Inl e \<Rightarrow> \<lparr>after = s, issued = [], uncaught = Some e\<rparr>
           | Inr pushed \<Rightarrow>
               let s1 = s\<lparr>conversationHistory := pushed, queryText := [],
                           isLoading := True, error := JStr []\<rparr>;
                   tried = submit_try r_chat sb currentQuery s1;
                   s2 = fst tried;
                   reqs = fst (snd tried)
               in case snd (snd tried) of
                    None \<Rightarrow> \<lparr>after = s2\<lparr>isLoading := False\<rparr>, issued = reqs, uncaught = None\<rparr>
                  | Some err \<Rightarrow>
                      (case pop_history (conversationHistory s2) of
                         Inl e \<Rightarrow>
                           \<lparr>after = s2\<lparr>isLoading := False\<rparr>, issued = reqs, uncaught = Some e\<rparr>
                       | Inr popped \<Rightarrow>
                           \<lparr>after = s2\<lparr>conversationHistory := popped,
                                       queryText := currentQuery,
                                       error := JStr (''Error submitting query: '' @ message err),
                                       isLoading := False\<rparr>,
                            issued = reqs, uncaught = None\<rparr>))"

text \<open>The number of requests to the chat endpoint among the requests issued.\<close>

definition chat_posts :: "request list \<Rightarrow> nat" where
  "chat_posts reqs = length (filter (\<lambda>q. req_url q = ''/api/v1/chat/'') reqs)"

subsection \<open>\<^verbatim>\<open>renameConversation\<close> and \<^verbatim>\<open>deleteConversation\<close>\<close>

text \<open>
  The conversation passed to \<^verbatim>\<open>renameConversation\<close> is read for its \<^verbatim>\<open>id\<close> and
  \<^verbatim>\<open>title\<close>.  \<^verbatim>\<open>prompt\<close> gives \<^verbatim>\<open>null\<close> when cancelled and the entered string otherwise.
  The callbacks \<^verbatim>\<open>c => c.id === id\<close> and \<^verbatim>\<open>c => c.id !== id\<close> throw on a \<^verbatim>\<open>null\<close>
  entry; a string is strictly equal to an equal string only.
\<close>

record conversation_ref =
  conv_id :: string
  conv_title :: string

definition id_is :: "string \<Rightarrow> json \<Rightarrow> js_error + bool" where
  "id_is cid c =
     (if c = JNull then Inl null_read else Inr (own_prop c ''id'' = Some (JStr cid)))"

definition id_is_not :: "string \<Rightarrow> json \<Rightarrow> js_error + bool" where
  "id_is_not cid c =
     (if c = JNull then Inl null_read else Inr (own_prop c ''id'' \<noteq> Some (JStr cid)))"

fun findIndex :: "(json \<Rightarrow> js_error + bool) \<Rightarrow> json list \<Rightarrow> js_error + nat option" where
  "findIndex p [] = Inr None"
| "findIndex p (x # xs) =
     (case p x of
        Inl e \<Rightarrow> Inl e
      | Inr True \<Rightarrow> Inr (Some 0)
      | Inr False \<Rightarrow>
          (case findIndex p xs of
             Inl e \<Rightarrow> Inl e
           | Inr None \<Rightarrow> Inr None
           | Inr (Some i) \<Rightarrow> Inr (Some (Suc i))))"

fun filter_js :: "(json \<Rightarrow> js_error + bool) \<Rightarrow> json list \<Rightarrow> js_error + json list" where
  "filter_js p [] = Inr []"
| "filter_js p (x # xs) =
     (case p x of
        Inl e \<Rightarrow> Inl e
      | Inr keep \<Rightarrow>
          (case filter_js p xs of
             Inl e \<Rightarrow> Inl e
           | Inr ys \<Rightarrow> Inr (if keep then x # ys else ys)))"

definition renameConversation ::
  "conversation_ref \<Rightarrow> string option \<Rightarrow> fetch_result \<Rightarrow> chat_state
     \<Rightarrow> chat_state \<times> request list" where
  "renameConversation conversation newTitle r s =
     (case newTitle of
        None \<Rightarrow> (s, [])
      | Some t \<Rightarrow>
          if t = [] \<or> trim t = [] then (s, [])
          else
            let req = Request ''PUT'' (conversation_url (conv_id conversation))
                        (Some (JObj [(''title'', JStr (trim t))]));
                catch = caught ''Error renaming conversation: ''
            in case r of
                 Rejected m \<Rightarrow> (catch (JsError m) s, [req])
               | Resolved ok b \<Rightarrow>
                   if ok
                   then (case b of
                       NotJson m \<Rightarrow> (catch (JsError m) s, [req])
                     | Json updatedConversation \<Rightarrow>
                         (case conversations s of
                            JArr cs \<Rightarrow>
                              (case findIndex (id_is (conv_id conversation)) cs of
                                 Inl e \<Rightarrow> (catch e s, [req])
                               | Inr None \<Rightarrow> (s, [req])
                               | Inr (Some index) \<Rightarrow>
                                   (s\<lparr>conversations := JArr (cs[index := updatedConversation])\<rparr>,
                                    [req]))
                          | JNull \<Rightarrow> (catch null_read s, [req])
                          | _ \<Rightarrow> (catch (not_a_function ''conversations.value.findIndex'') s, [req])))
                   else (case b of
                       NotJson m \<Rightarrow> (catch (JsError m) s, [req])
                     | Json errorData \<Rightarrow>
                         if errorData = JNull then (catch null_read s, [req])
                         else (s\<lparr>error := JStr (''Failed to rename conversation: ''
                                        @ to_string (or_else (own_prop errorData ''detail'')
                                                       (JStr ''Unknown error'')))\<rparr>, [req])))"

definition deleteConversation ::
  "string \<Rightarrow> fetch_result \<Rightarrow> chat_state \<Rightarrow> chat_state \<times> request list" where
  "deleteConversation conversationId r s =
     (let req = Request ''DELETE'' (conversation_url conversationId) None;
          catch = caught ''Error deleting conversation: ''
      in case r of
           Rejected m \<Rightarrow> (catch (JsError m) s, [req])
         | Resolved ok b \<Rightarrow>
             if ok
             then (case conversations s of
                 JArr cs \<Rightarrow>
                   (case filter_js (id_is_not conversationId) cs of
                      Inl e \<Rightarrow> (catch e s, [req])
                    | Inr kept \<Rightarrow>
                        let s1 = s\<lparr>conversations := JArr kept\<rparr>
                        in if currentConversationId s1 = JStr conversationId
                           then (s1\<lparr>currentConversationId := JNull,
                                    conversationHistory := Some (JArr [])\<rparr>, [req])
                           else (s1, [req]))
               | JNull \<Rightarrow> (catch null_read s, [req])
               | _ \<Rightarrow> (catch (not_a_function ''conversations.value.filter'') s, [req]))
             else (case b of
                 NotJson m \<Rightarrow> (catch (JsError m) s, [req])
               | Json errorData \<Rightarrow>
                   if errorData = JNull then (catch null_read s, [req])
                   else (s\<lparr>error := JStr (''Failed to delete conversation: ''
                                  @ to_string (or_else (own_prop errorData ''detail'')
                                                 (JStr ''Unknown error'')))\<rparr>, [req])))"

subsection \<open>Sample inputs\<close>

definition hello_message :: json where
  "hello_message = JObj [(''role'', JStr ''user''), (''content'', JStr ''Hello'')]"

definition reply_message :: json where
  "reply_message =
     JObj [(''role'', JStr ''assistant''), (''content'', JStr ''Hi there! How can I help you?'')]"

text \<open>A conversation of two messages is shown and a new query is typed.\<close>

definition sample_chat_state :: chat_state where
  "sample_chat_state =
     initial_state\<lparr>conversationHistory := Some (JArr [hello_message, reply_message]),
                    queryText := ''What is RAG?''\<rparr>"

text \<open>A gateway answers 502 with an HTML page: the response is not ok, its body not JSON.\<close>

definition bad_gateway :: fetch_result where
  "bad_gateway = Resolved False (NotJson ''Unexpected token < in JSON at position 0'')"

text \<open>The API answers 500 with its JSON error body.\<close>

definition server_error :: fetch_result where
  "server_error = Resolved False (Json (JObj [(''detail'', JStr ''Model not available'')]))"

definition sample_conversation :: json where
  "sample_conversation =
     JObj [(''id'', JStr ''c1''), (''title'', JStr ''Greetings''),
           (''messages'', JArr [hello_message, reply_message]),
           (''tags'', JArr [JStr ''house'', JStr ''insurance'']),
           (''include_untagged'', JBool False),
           (''model'', JStr ''openai:gpt-4o'')]"


definition other_conversation :: json where
  "other_conversation = JObj [(''id'', JStr ''c2''), (''title'', JStr ''Taxes'')]"

definition renamed_conversation :: json where
  "renamed_conversation = JObj [(''id'', JStr ''c1''), (''title'', JStr ''Salutations'')]"

definition sample_list_state :: chat_state where
  "sample_list_state =
     initial_state\<lparr>conversations := JArr [other_conversation, sample_conversation],
                    currentConversationId := JStr ''c1'',
                    conversationHistory := Some (JArr [hello_message, reply_message])\<rparr>"

definition sample_ref :: conversation_ref where
  "sample_ref = \<lparr>conv_id = ''c1'', conv_title = ''Greetings''\<rparr>"





section \<open>The computed list of tags to select from\<close>


text \<open>An entry of the computed list: \<^verbatim>\<open>{ item }\<close> or \<^verbatim>\<open>{ item, score }\<close>.\<close>

datatype 'sc tag_result = TagResult (item: string) (score: "'sc option")








text \<open>\<open>not_after cmp x y\<close>: the comparator's result for \<open>x\<close> and \<open>y\<close> is not positive.\<close>

definition not_after :: "('a \<Rightarrow> 'a \<Rightarrow> int option) \<Rightarrow> 'a \<Rightarrow> 'a \<Rightarrow> bool" where
  "not_after cmp x y = (case cmp x y of None \<Rightarrow> True | Some v \<Rightarrow> v \<le> 0)"

fun place :: "('a \<Rightarrow> 'a \<Rightarrow> int option) \<Rightarrow> 'a \<Rightarrow> 'a list \<Rightarrow> 'a list" where
  "place cmp x [] = [x]"
| "place cmp x (y # ys) = (if not_after cmp x y then x # y # ys else y # place cmp x ys)"

definition sort_js :: "('a \<Rightarrow> 'a \<Rightarrow> int option) \<Rightarrow> 'a list \<Rightarrow> 'a list" where
  "sort_js cmp xs = foldr (place cmp) xs []"



subsection \<open>Sample inputs\<close>












section \<open>The Python WebSocket client\<close>

text \<open>
  \<^verbatim>\<open>chat_websocket\<close> of the documented Python client sends one chat message and then
  loops on \<^verbatim>\<open>websocket.recv()\<close>.  The model starts after the send: its input is the
  sequence of frames the server delivers before the connection closes.  A frame is a
  text that \<^verbatim>\<open>json.loads\<close> accepts, known by its value, or one that it rejects.
  \<^verbatim>\<open>recv\<close> on a closed connection raises.  The \<^verbatim>\<open>print\<close> calls write to the terminal
  only, but the subscripts they format are evaluated and may raise.
\<close>

datatype py_error = KeyError string | TypeError string | JSONDecodeError | ConnectionClosed

datatype frame = Text json | Malformed

text \<open>The subscript \<^verbatim>\<open>v[key]\<close> with a string key.\<close>

fun py_item :: "json \<Rightarrow> string \<Rightarrow> py_error + json" where
  "py_item (JObj kvs) key =
     (case map_of kvs key of Some v \<Rightarrow> Inr v | None \<Rightarrow> Inl (KeyError key))"
| "py_item (JArr xs) key = Inl (TypeError ''list indices must be integers or slices, not str'')"
| "py_item (JStr s) key = Inl (TypeError ''string indices must be integers'')"
| "py_item v key = Inl (TypeError ''object is not subscriptable'')"

text \<open>
  The loop over \<^verbatim>\<open>enumerate(data["content"]["sources"])\<close>, which formats
  \<^verbatim>\<open>source['text']\<close> and then \<^verbatim>\<open>source['id']\<close> of every source: the first error raised,
  if any.  Iterating a string gives its characters and iterating a dict its keys, all
  strings; numbers, booleans and \<^verbatim>\<open>None\<close> are not iterable.
\<close>

fun print_source :: "json \<Rightarrow> py_error option" where
  "print_source source =
     (case py_item source ''text'' of
        Inl e \<Rightarrow> Some e
      | Inr t \<Rightarrow> (case py_item source ''id'' of Inl e \<Rightarrow> Some e | Inr i \<Rightarrow> None))"

fun print_each :: "json list \<Rightarrow> py_error option" where
  "print_each [] = None"
| "print_each (source # others) =
     (case print_source source of Some e \<Rightarrow> Some e | None \<Rightarrow> print_each others)"

fun print_sources :: "json \<Rightarrow> py_error option" where
  "print_sources (JArr xs) = print_each xs"
| "print_sources (JStr s) = print_each (map (\<lambda>c. JStr [c]) s)"
| "print_sources (JObj kvs) = print_each (map (\<lambda>kv. JStr (fst kv)) kvs)"
| "print_sources v = Some (TypeError ''object is not iterable'')"

text \<open>
  The \<^verbatim>\<open>while True\<close> loop, with \<^verbatim>\<open>full_response\<close> as accumulator.  The result is what the
  call does (the value it returns, \<open>None\<close> for Python's \<^verbatim>\<open>None\<close>, or the exception it
  raises), the accumulated response at that moment, and the frames not yet received.
\<close>

fun chat_loop :: "string \<Rightarrow> frame list \<Rightarrow> (py_error + json option) \<times> string \<times> frame list" where
  "chat_loop full_response [] = (Inl ConnectionClosed, full_response, [])"
| "chat_loop full_response (Malformed # rest) = (Inl JSONDecodeError, full_response, rest)"
| "chat_loop full_response (Text data # rest) =
     (case py_item data ''type'' of
        Inl e \<Rightarrow> (Inl e, full_response, rest)
      | Inr ty \<Rightarrow>
          if ty = JStr ''token'' then
            (case py_item data ''content'' of
               Inl e \<Rightarrow> (Inl e, full_response, rest)
             | Inr (JStr s) \<Rightarrow> chat_loop (full_response @ s) rest
             | Inr other \<Rightarrow>
                 (Inl (TypeError ''can only concatenate str to str''), full_response, rest))
          else if ty = JStr ''complete'' then
            (case py_item data ''content'' of
               Inl e \<Rightarrow> (Inl e, full_response, rest)
             | Inr content \<Rightarrow>
                 (case py_item content ''sources'' of
                    Inl e \<Rightarrow> (Inl e, full_response, rest)
                  | Inr sources \<Rightarrow>
                      (case print_sources sources of
                         Some e \<Rightarrow> (Inl e, full_response, rest)
                       | None \<Rightarrow> (Inr (Some content), full_response, rest))))
          else if ty = JStr ''error'' then
            (case py_item data ''content'' of
               Inl e \<Rightarrow> (Inl e, full_response, rest)
             | Inr content \<Rightarrow> (Inr None, full_response, rest))
          else chat_loop full_response rest)"

definition chat_websocket :: "frame list \<Rightarrow> (py_error + json option) \<times> string \<times> frame list" where
  "chat_websocket frames = chat_loop [] frames"

subsection \<open>The documented messages\<close>

text \<open>
  The message formats of the server, as the README lists them.  \<open>streamed f\<close> is the
  text a frame adds to the accumulated response when it is a message that does not end
  the exchange: the content of a token message, nothing for a start message or a
  message of another unknown type.  It is \<open>None\<close> for every other frame.
\<close>

fun streamed :: "frame \<Rightarrow> string option" where
  "streamed (Text (JObj kvs)) =
     (case map_of kvs ''type'' of
        None \<Rightarrow> None
      | Some ty \<Rightarrow>
          if ty = JStr ''token'' then
            (case map_of kvs ''content'' of Some (JStr s) \<Rightarrow> Some s | _ \<Rightarrow> None)
          else if ty = JStr ''complete'' \<or> ty = JStr ''error'' then None
          else Some [])"
| "streamed f = None"

definition stream_text :: "frame list \<Rightarrow> string" where
  "stream_text fs = concat (map (\<lambda>f. case streamed f of Some s \<Rightarrow> s | None \<Rightarrow> []) fs)"

text \<open>A source of a complete message has a \<^verbatim>\<open>text\<close> and an \<^verbatim>\<open>id\<close>.\<close>

fun source_entry :: "json \<Rightarrow> bool" where
  "source_entry (JObj kvs) = (map_of kvs ''text'' \<noteq> None \<and> map_of kvs ''id'' \<noteq> None)"
| "source_entry v = False"

text \<open>\<open>complete_message content f\<close>: a complete message with that content.\<close>

fun complete_message :: "json \<Rightarrow> frame \<Rightarrow> bool" where
  "complete_message content (Text (JObj kvs)) =
     (map_of kvs ''type'' = Some (JStr ''complete'')
      \<and> map_of kvs ''content'' = Some content
      \<and> (case py_item content ''sources'' of
            Inr (JArr sources) \<Rightarrow> list_all source_entry sources
          | _ \<Rightarrow> False))"
| "complete_message content f = False"

fun error_message :: "frame \<Rightarrow> bool" where
  "error_message (Text (JObj kvs)) =
     (map_of kvs ''type'' = Some (JStr ''error'') \<and> map_of kvs ''content'' \<noteq> None)"
| "error_message f = False"

subsection \<open>Sample inputs\<close>

definition token_frame :: "string \<Rightarrow> frame" where
  "token_frame s = Text (JObj [(''type'', JStr ''token''), (''content'', JStr s)])"

definition start_frame :: frame where
  "start_frame = Text (JObj [(''type'', JStr ''start''), (''content'', JStr ''Generating response...'')])"

definition sample_answer :: json where
  "sample_answer =
     JObj [(''answer'', JStr ''RAG is retrieval''),
           (''sources'', JArr [JObj [(''id'', JStr ''doc1''), (''text'', JStr ''Snippet'')]]),
           (''history'', JArr [])]"

definition complete_frame :: frame where
  "complete_frame = Text (JObj [(''type'', JStr ''complete''), (''content'', sample_answer)])"

definition error_frame :: frame where
  "error_frame = Text (JObj [(''type'', JStr ''error''), (''content'', JStr ''Error message'')])"

section \<open>Basic facts\<close>

lemma get_prop_JNull [simp]: "get_prop JNull k = Inl null_read"
  by (simp add: get_prop_def)

lemma get_prop_not_null [simp]: "v \<noteq> JNull \<Longrightarrow> get_prop v k = Inr (own_prop v k)"
  by (simp add: get_prop_def)

lemma get_prop_Inl: "get_prop v k = Inl e \<Longrightarrow> v = JNull"
  by (auto simp: get_prop_def split: if_splits)

section \<open>Properties of the PDF upload component\<close>

subsection \<open>\<^verbatim>\<open>handleFiles\<close>\<close>

text \<open>
  C10.  \<^verbatim>\<open>handleFiles\<close> appends to the selected files exactly the new files whose MIME
  type is \<^verbatim>\<open>application/pdf\<close> or whose lower-cased name ends with \<^verbatim>\<open>.pdf\<close>, in their
  original order.  When no new file qualifies the selected files are unchanged and the
  upload status is the failure \<^verbatim>\<open>Only PDF files are allowed.\<close>
\<close>

theorem handleFiles_appends_pdfs:
  fixes newFiles :: "pdf_file list" and st :: upload_state
  defines "pdfFiles \<equiv> filter (\<lambda>f. file_type f = ''application/pdf''
                            \<or> suffix ''.pdf'' (toLowerCase (file_name f))) newFiles"
  shows "(pdfFiles \<noteq> [] \<longrightarrow> files (handleFiles newFiles st) = files st @ pdfFiles)
       \<and> (pdfFiles = [] \<longrightarrow>
            files (handleFiles newFiles st) = files st
          \<and> uploadStatus (handleFiles newFiles st) =
              Some \<lparr>status_success = False, status_message = ''Only PDF files are allowed.'',
                    status_details = None\<rparr>)"
  unfolding pdfFiles_def handleFiles_def Let_def is_pdf_def endsWith_def by simp

theorem handleFiles_appends_pdfs_witness:
  "files (handleFiles sample_files sample_upload_state)
     = [\<lparr>file_name = ''old.pdf'', file_type = ''application/pdf''\<rparr>,
        \<lparr>file_name = ''Report.PDF'', file_type = []\<rparr>,
        \<lparr>file_name = ''scan'', file_type = ''application/pdf''\<rparr>]
   \<and> files (handleFiles [\<lparr>file_name = ''notes.txt'', file_type = ''text/plain''\<rparr>]
              sample_upload_state)
     = files sample_upload_state
   \<and> uploadStatus (handleFiles [\<lparr>file_name = ''notes.txt'', file_type = ''text/plain''\<rparr>]
                     sample_upload_state)
     = Some \<lparr>status_success = False, status_message = ''Only PDF files are allowed.'',
             status_details = None\<rparr>"
proof -
  have a: "filter (\<lambda>f. file_type f = ''application/pdf''
              \<or> suffix ''.pdf'' (toLowerCase (file_name f))) sample_files
           = [\<lparr>file_name = ''Report.PDF'', file_type = []\<rparr>,
              \<lparr>file_name = ''scan'', file_type = ''application/pdf''\<rparr>]"
    by code_simp
  have b: "filter (\<lambda>f. file_type f = ''application/pdf''
              \<or> suffix ''.pdf'' (toLowerCase (file_name f)))
             [\<lparr>file_name = ''notes.txt'', file_type = ''text/plain''\<rparr>] = []"
    by code_simp
  have c: "files sample_upload_state
           = [\<lparr>file_name = ''old.pdf'', file_type = ''application/pdf''\<rparr>]"
    by (simp add: sample_upload_state_def)
  show ?thesis
    using handleFiles_appends_pdfs [of sample_files sample_upload_state]
          handleFiles_appends_pdfs
            [of "[\<lparr>file_name = ''notes.txt'', file_type = ''text/plain''\<rparr>]" sample_upload_state]
    unfolding a b c by simp
qed

subsection \<open>\<^verbatim>\<open>uploadFiles\<close>\<close>

lemma promise_all_Inr_D: "promise_all rs = Inr xs \<Longrightarrow> rs = map Inr xs"
proof (induction rs arbitrary: xs)
  case Nil
  then show ?case by simp
next
  case (Cons r rs)
  show ?case
  proof (cases r)
    case (Inl e)
    with Cons.prems show ?thesis by simp
  next
    case (Inr x)
    with Cons.prems obtain ys where ys: "promise_all rs = Inr ys" "xs = x # ys"
      by (auto split: sum.splits)
    with Cons.IH Inr show ?thesis by simp
  qed
qed

lemma promise_all_Inl: "promise_all rs = Inl e \<Longrightarrow> \<exists>i<length rs. rs ! i = Inl e"
proof (induction rs)
  case Nil
  then show ?case by simp
next
  case (Cons r rs)
  show ?case
  proof (cases r)
    case (Inl e')
    with Cons.prems have "(r # rs) ! 0 = Inl e" by simp
    then show ?thesis by blast
  next
    case (Inr x)
    with Cons.prems have "promise_all rs = Inl e" by (simp split: sum.splits)
    then obtain i where "i < length rs" "rs ! i = Inl e" using Cons.IH by blast
    then have "Suc i < length (r # rs) \<and> (r # rs) ! Suc i = Inl e" by simp
    then show ?thesis by blast
  qed
qed

lemma upload_one_Inr: "upload_one f r = Inr u \<Longrightarrow> res_success u = upload_ok r"
  by (induction f r rule: upload_one.induct)
     (auto simp: upload_ok_def get_prop_def split: if_splits sum.splits)

lemma upload_one_Inl: "upload_one f r = Inl e \<Longrightarrow> \<not> upload_ok r"
  by (induction f r rule: upload_one.induct)
     (auto simp: upload_ok_def split: if_splits sum.splits dest: get_prop_Inl)

text \<open>
  C6, as the claim states it, fails.  One PDF file is selected and a collection is
  chosen; the upload is answered with an ok response whose body is not JSON.  Every
  upload response is ok, \<^verbatim>\<open>response.json()\<close> rejects, \<^verbatim>\<open>Promise.all\<close> rejects and the
  \<^verbatim>\<open>catch\<close> block sets a failure status; the file list is kept.
\<close>

theorem uploadFiles_ok_response_failure_status:
  "length (files sample_upload_state) = 1
 \<and> selectedCollection sample_upload_state = ''docs''
 \<and> response_ok (uploads_answered_html 0)
 \<and> uploadStatus (fst (uploadFiles uploads_answered_html sample_upload_state))
     = Some \<lparr>status_success = False,
             status_message = ''Error uploading files: Unexpected token < in JSON at position 0'',
             status_details = None\<rparr>
 \<and> files (fst (uploadFiles uploads_answered_html sample_upload_state))
     = files sample_upload_state"
  by (simp add: sample_upload_state_def uploads_answered_html_def uploadFiles_def)

text \<open>
  C6, amended.  When the selected file list is empty or no collection is selected,
  \<^verbatim>\<open>uploadFiles\<close> issues no request, sets a failure status with an explanatory message
  and leaves the file list unchanged.  Otherwise it issues one POST to
  \<^verbatim>\<open>/api/v1/documents/upload\<close> per selected file; the resulting status is successful if
  and only if every upload is answered with an ok response whose body parses as JSON (to
  a value other than \<^verbatim>\<open>null\<close>); the file list is cleared if and only if the status is
  successful, and is unchanged otherwise.
\<close>

theorem uploadFiles_status:
  "(files st = [] \<or> selectedCollection st = [] \<longrightarrow>
      snd (uploadFiles env st) = []
    \<and> files (fst (uploadFiles env st)) = files st
    \<and> uploadStatus (fst (uploadFiles env st)) =
        Some \<lparr>status_success = False,
              status_message = (if files st = []
                                then ''Please select at least one PDF file to upload.''
                                else ''Please select a collection.''),
              status_details = None\<rparr>)
 \<and> (files st \<noteq> [] \<and> selectedCollection st \<noteq> [] \<longrightarrow>
      map req_method (snd (uploadFiles env st)) = replicate (length (files st)) ''POST''
    \<and> map req_url (snd (uploadFiles env st))
        = replicate (length (files st)) ''/api/v1/documents/upload''
    \<and> (\<exists>u. uploadStatus (fst (uploadFiles env st)) = Some u
          \<and> (status_success u \<longleftrightarrow>
               (\<forall>i<length (files st). \<exists>v. env i = Resolved True (Json v) \<and> v \<noteq> JNull))
          \<and> (files (fst (uploadFiles env st)) = [] \<longleftrightarrow> status_success u)
          \<and> (\<not> status_success u \<longrightarrow> files (fst (uploadFiles env st)) = files st)))"
proof (intro conjI impI)
  assume "files st = [] \<or> selectedCollection st = []"
  then show "snd (uploadFiles env st) = []"
    by (auto simp: uploadFiles_def)
next
  assume "files st = [] \<or> selectedCollection st = []"
  then show "files (fst (uploadFiles env st)) = files st"
    by (auto simp: uploadFiles_def)
next
  assume "files st = [] \<or> selectedCollection st = []"
  then show "uploadStatus (fst (uploadFiles env st)) =
        Some \<lparr>status_success = False,
              status_message = (if files st = []
                                then ''Please select at least one PDF file to upload.''
                                else ''Please select a collection.''),
              status_details = None\<rparr>"
    by (auto simp: uploadFiles_def)
next
  assume "files st \<noteq> [] \<and> selectedCollection st \<noteq> []"
  then show "map req_method (snd (uploadFiles env st)) = replicate (length (files st)) ''POST''"
    by (auto simp: uploadFiles_def Let_def upload_request_def map_replicate_const comp_def
             split: sum.splits)
next
  assume "files st \<noteq> [] \<and> selectedCollection st \<noteq> []"
  then show "map req_url (snd (uploadFiles env st))
        = replicate (length (files st)) ''/api/v1/documents/upload''"
    by (auto simp: uploadFiles_def Let_def upload_request_def map_replicate_const comp_def
             split: sum.splits)
next
  assume a: "files st \<noteq> [] \<and> selectedCollection st \<noteq> []"
  define outs where
    "outs = map (\<lambda>i. upload_one (files st ! i) (env i)) [0 ..< length (files st)]"
  have ok_eq: "(\<forall>i<length (files st). \<exists>v. env i = Resolved True (Json v) \<and> v \<noteq> JNull)
               \<longleftrightarrow> (\<forall>i<length (files st). upload_ok (env i))"
    by (simp add: upload_ok_def)
  show "\<exists>u. uploadStatus (fst (uploadFiles env st)) = Some u
          \<and> (status_success u \<longleftrightarrow>
               (\<forall>i<length (files st). \<exists>v. env i = Resolved True (Json v) \<and> v \<noteq> JNull))
          \<and> (files (fst (uploadFiles env st)) = [] \<longleftrightarrow> status_success u)
          \<and> (\<not> status_success u \<longrightarrow> files (fst (uploadFiles env st)) = files st)"
  proof (cases "promise_all outs")
    case (Inl e)
    then obtain i where i: "i < length outs" "outs ! i = Inl e"
      using promise_all_Inl by blast
    then have "i < length (files st)" "upload_one (files st ! i) (env i) = Inl e"
      by (simp_all add: outs_def)
    then have "\<not> (\<forall>i<length (files st). upload_ok (env i))"
      using upload_one_Inl by blast
    with a Inl show ?thesis
      unfolding ok_eq by (simp add: uploadFiles_def Let_def outs_def [symmetric])
  next
    case (Inr results)
    then have outs: "outs = map Inr results" by (rule promise_all_Inr_D)
    then have len: "length results = length (files st)"
      by (metis length_map length_upt minus_nat.diff_0 outs_def)
    have each: "res_success (results ! i) = upload_ok (env i)" if "i < length (files st)" for i
    proof -
      have "outs ! i = Inr (results ! i)" using that len outs by simp
      then have "upload_one (files st ! i) (env i) = Inr (results ! i)"
        using that by (simp add: outs_def)
      then show ?thesis by (rule upload_one_Inr)
    qed
    have all: "list_all res_success results \<longleftrightarrow> (\<forall>i<length (files st). upload_ok (env i))"
      using each len by (auto simp: list_all_length)
    from a Inr show ?thesis
      unfolding ok_eq by (auto simp: uploadFiles_def Let_def outs_def [symmetric] all)
  qed
qed

theorem uploadFiles_status_witness:
  "files sample_upload_state \<noteq> []
 \<and> selectedCollection sample_upload_state \<noteq> []
 \<and> snd (uploadFiles uploads_accepted sample_upload_state)
     = [Request ''POST'' ''/api/v1/documents/upload''
          (Some (JObj [(''file'', JStr ''old.pdf''), (''collection_name'', JStr ''docs'')]))]
 \<and> (\<exists>u. uploadStatus (fst (uploadFiles uploads_accepted sample_upload_state)) = Some u
        \<and> status_success u)
 \<and> files (fst (uploadFiles uploads_accepted sample_upload_state)) = []"
proof -
  have h: "files sample_upload_state \<noteq> [] \<and> selectedCollection sample_upload_state \<noteq> []"
    by (simp add: sample_upload_state_def)
  have ok: "\<forall>i<length (files sample_upload_state).
              \<exists>v. uploads_accepted i = Resolved True (Json v) \<and> v \<noteq> JNull"
    by (simp add: uploads_accepted_def)
  have reqs: "snd (uploadFiles uploads_accepted sample_upload_state)
     = [Request ''POST'' ''/api/v1/documents/upload''
          (Some (JObj [(''file'', JStr ''old.pdf''), (''collection_name'', JStr ''docs'')]))]"
    by (simp add: uploadFiles_def sample_upload_state_def uploads_accepted_def
                  upload_request_def)
  show ?thesis
    using uploadFiles_status [of sample_upload_state uploads_accepted] h ok reqs by blast
qed

section \<open>Properties of the chat component\<close>


lemma caught_keeps:
  "currentConversationId (caught p e s) = currentConversationId s"
  "conversationHistory (caught p e s) = conversationHistory s"
  "selectedTags (caught p e s) = selectedTags s"
  "includeUntagged (caught p e s) = includeUntagged s"
  "selectedModel (caught p e s) = selectedModel s"
  "conversations (caught p e s) = conversations s"
  "queryText (caught p e s) = queryText s"
  by (simp_all add: caught_def)

subsection \<open>The selected model\<close>










subsection \<open>\<^verbatim>\<open>selectConversation\<close>\<close>



subsection \<open>\<^verbatim>\<open>deleteConversation\<close>\<close>

lemma filter_js_no_null:
  "JNull \<notin> set cs \<Longrightarrow>
   filter_js (id_is_not cid) cs = Inr (filter (\<lambda>c. own_prop c ''id'' \<noteq> Some (JStr cid)) cs)"
  by (induction cs) (auto simp: id_is_not_def)

text \<open>
  C4.  The local list holds conversation entries (none of them \<^verbatim>\<open>null\<close>).  When the
  DELETE is answered ok, the entries with the deleted id are removed and the other
  entries are kept as they are, in order; the current conversation id and the history
  are cleared when the deleted id was the current one and are unchanged otherwise.
  When the response is not ok, the list, the current id and the history are unchanged.
\<close>

theorem deleteConversation_frame:
  assumes "conversations s = JArr cs" and "JNull \<notin> set cs"
  shows "conversations (fst (deleteConversation conversationId (Resolved True b) s))
           = JArr (filter (\<lambda>c. own_prop c ''id'' \<noteq> Some (JStr conversationId)) cs)
     \<and> (currentConversationId s = JStr conversationId \<longrightarrow>
           currentConversationId (fst (deleteConversation conversationId (Resolved True b) s)) = JNull
         \<and> conversationHistory (fst (deleteConversation conversationId (Resolved True b) s))
             = Some (JArr []))
     \<and> (currentConversationId s \<noteq> JStr conversationId \<longrightarrow>
           currentConversationId (fst (deleteConversation conversationId (Resolved True b) s))
             = currentConversationId s
         \<and> conversationHistory (fst (deleteConversation conversationId (Resolved True b) s))
             = conversationHistory s)
     \<and> conversations (fst (deleteConversation conversationId (Resolved False b) s))
           = conversations s
     \<and> currentConversationId (fst (deleteConversation conversationId (Resolved False b) s))
           = currentConversationId s
     \<and> conversationHistory (fst (deleteConversation conversationId (Resolved False b) s))
           = conversationHistory s"
  using assms
  by (auto simp: deleteConversation_def Let_def filter_js_no_null caught_def
           split: body.splits)

theorem deleteConversation_frame_witness:
  "conversations (fst (deleteConversation ''c1'' (Resolved True (NotJson [])) sample_list_state))
     = JArr [other_conversation]
 \<and> currentConversationId
     (fst (deleteConversation ''c1'' (Resolved True (NotJson [])) sample_list_state)) = JNull
 \<and> conversationHistory
     (fst (deleteConversation ''c1'' (Resolved True (NotJson [])) sample_list_state))
     = Some (JArr [])
 \<and> conversations (fst (deleteConversation ''c1'' (Resolved False (NotJson [])) sample_list_state))
     = JArr [other_conversation, sample_conversation]"
proof -
  have a: "conversations sample_list_state = JArr [other_conversation, sample_conversation]"
    by (simp add: sample_list_state_def)
  have b: "JNull \<notin> set [other_conversation, sample_conversation]"
    by (simp add: other_conversation_def sample_conversation_def)
  have c: "currentConversationId sample_list_state = JStr ''c1''"
    by (simp add: sample_list_state_def)
  have d: "filter (\<lambda>c. own_prop c ''id'' \<noteq> Some (JStr ''c1''))
             [other_conversation, sample_conversation] = [other_conversation]"
    by (simp add: other_conversation_def sample_conversation_def)
  show ?thesis
    using deleteConversation_frame [OF a b, of "''c1''" "NotJson []"] c
    unfolding d a by simp
qed

subsection \<open>\<^verbatim>\<open>renameConversation\<close>\<close>

lemma findIndex_Some:
  "findIndex (id_is cid) cs = Inr (Some i) \<Longrightarrow>
     i < length cs \<and> own_prop (cs ! i) ''id'' = Some (JStr cid)
   \<and> (\<forall>j<i. own_prop (cs ! j) ''id'' \<noteq> Some (JStr cid))"
proof (induction cs arbitrary: i)
  case Nil
  then show ?case by simp
next
  case (Cons c cs)
  show ?case
  proof (cases "id_is cid c")
    case (Inl e)
    with Cons.prems show ?thesis by simp
  next
    case (Inr found)
    show ?thesis
    proof (cases found)
      case True
      with Inr Cons.prems have "i = 0" by simp
      with True Inr show ?thesis by (auto simp: id_is_def split: if_splits)
    next
      case False
      with Inr Cons.prems obtain k where k: "findIndex (id_is cid) cs = Inr (Some k)" "i = Suc k"
        by (auto split: sum.splits option.splits)
      from False Inr have c: "own_prop c ''id'' \<noteq> Some (JStr cid)"
        by (auto simp: id_is_def split: if_splits)
      from Cons.IH [OF k(1)] k(2) c show ?thesis
        by (auto simp: less_Suc_eq_0_disj)
    qed
  qed
qed

lemma findIndex_no_null:
  "JNull \<notin> set cs \<Longrightarrow> \<exists>r. findIndex (id_is cid) cs = Inr r"
  by (induction cs) (auto simp: id_is_def split: sum.splits option.splits bool.splits)

lemma findIndex_None:
  "findIndex (id_is cid) cs = Inr None \<Longrightarrow>
     \<forall>c\<in>set cs. own_prop c ''id'' \<noteq> Some (JStr cid)"
  by (induction cs) (auto simp: id_is_def split: sum.splits option.splits if_splits bool.splits)

lemma trim_Nil [simp]: "trim [] = []"
  by (simp add: trim_def)

text \<open>
  C5.  When the prompt is cancelled or the entered title is empty or all white space,
  \<^verbatim>\<open>renameConversation\<close> sends nothing and changes nothing.  Otherwise it sends exactly
  one request, a PUT to the conversation's URL with the trimmed title.  On an ok
  response the list keeps its length, and an entry that changed had the renamed id and
  is now the object the server returned; when the list has no \<^verbatim>\<open>null\<close> entry, the first
  entry with the renamed id is the one replaced.
\<close>

theorem renameConversation_replaces_match:
  "((newTitle = None \<or> (\<exists>t. newTitle = Some t \<and> trim t = [])) \<longrightarrow>
      renameConversation conversation newTitle r s = (s, []))
 \<and> (\<forall>t. newTitle = Some t \<and> trim t \<noteq> [] \<longrightarrow>
      snd (renameConversation conversation newTitle r s)
        = [Request ''PUT'' (''/api/v1/conversations/'' @ conv_id conversation)
             (Some (JObj [(''title'', JStr (trim t))]))])
 \<and> (\<forall>cs b. conversations s = JArr cs \<longrightarrow>
      (\<exists>cs'. conversations (fst (renameConversation conversation newTitle (Resolved True b) s))
               = JArr cs'
           \<and> length cs' = length cs
           \<and> (\<forall>j<length cs. cs' ! j \<noteq> cs ! j \<longrightarrow>
                 own_prop (cs ! j) ''id'' = Some (JStr (conv_id conversation))
               \<and> b = Json (cs' ! j))))
 \<and> (\<forall>cs t updated i. conversations s = JArr cs \<and> JNull \<notin> set cs
        \<and> newTitle = Some t \<and> trim t \<noteq> []
        \<and> i < length cs \<and> own_prop (cs ! i) ''id'' = Some (JStr (conv_id conversation))
        \<and> (\<forall>j<i. own_prop (cs ! j) ''id'' \<noteq> Some (JStr (conv_id conversation))) \<longrightarrow>
      conversations (fst (renameConversation conversation newTitle (Resolved True (Json updated)) s))
        = JArr (cs[i := updated]))"
proof (intro conjI allI impI)
  assume "newTitle = None \<or> (\<exists>t. newTitle = Some t \<and> trim t = [])"
  then show "renameConversation conversation newTitle r s = (s, [])"
    by (auto simp: renameConversation_def)
next
  fix t assume "newTitle = Some t \<and> trim t \<noteq> []"
  then have "t \<noteq> []" "trim t \<noteq> []" "newTitle = Some t" by auto
  then show "snd (renameConversation conversation newTitle r s)
        = [Request ''PUT'' (''/api/v1/conversations/'' @ conv_id conversation)
             (Some (JObj [(''title'', JStr (trim t))]))]"
    by (auto simp: renameConversation_def Let_def conversation_url_def
             split: fetch_result.splits body.splits json.splits sum.splits option.splits)
next
  fix cs b assume cs: "conversations s = JArr cs"
  let ?s' = "fst (renameConversation conversation newTitle (Resolved True b) s)"
  have "conversations ?s' = JArr cs
      \<or> (\<exists>i u. findIndex (id_is (conv_id conversation)) cs = Inr (Some i)
              \<and> b = Json u \<and> conversations ?s' = JArr (cs[i := u]))"
  proof (cases "\<exists>t. newTitle = Some t \<and> t \<noteq> [] \<and> trim t \<noteq> []")
    case False
    then have "renameConversation conversation newTitle (Resolved True b) s = (s, [])"
      by (auto simp: renameConversation_def split: option.splits)
    with cs show ?thesis by simp
  next
    case True
    then obtain t where t: "newTitle = Some t" "t \<noteq> []" "trim t \<noteq> []" by blast
    show ?thesis
    proof (cases b)
      case (NotJson m)
      with t cs show ?thesis
        by (simp add: renameConversation_def Let_def caught_def)
    next
      case (Json u)
      show ?thesis
      proof (cases "findIndex (id_is (conv_id conversation)) cs")
        case (Inl e)
        with t cs Json show ?thesis
          by (simp add: renameConversation_def Let_def caught_def)
      next
        case (Inr found)
        with t cs Json show ?thesis
          by (cases found) (simp_all add: renameConversation_def Let_def)
      qed
    qed
  qed
  then consider (same) "conversations ?s' = JArr cs"
    | (upd) i u where "findIndex (id_is (conv_id conversation)) cs = Inr (Some i)"
        "b = Json u" "conversations ?s' = JArr (cs[i := u])"
    by blast
  then show "\<exists>cs'. conversations ?s' = JArr cs' \<and> length cs' = length cs
           \<and> (\<forall>j<length cs. cs' ! j \<noteq> cs ! j \<longrightarrow>
                 own_prop (cs ! j) ''id'' = Some (JStr (conv_id conversation))
               \<and> b = Json (cs' ! j))"
  proof cases
    case same
    then show ?thesis by simp
  next
    case upd
    from findIndex_Some [OF upd(1)]
    have i: "i < length cs" "own_prop (cs ! i) ''id'' = Some (JStr (conv_id conversation))"
      by auto
    have "\<forall>j<length cs. cs[i := u] ! j \<noteq> cs ! j \<longrightarrow>
            own_prop (cs ! j) ''id'' = Some (JStr (conv_id conversation))
          \<and> b = Json (cs[i := u] ! j)"
      using i upd(2) by (auto simp: nth_list_update)
    with upd(3) show ?thesis by simp
  qed
next
  fix cs t updated i
  assume a: "conversations s = JArr cs \<and> JNull \<notin> set cs
        \<and> newTitle = Some t \<and> trim t \<noteq> []
        \<and> i < length cs \<and> own_prop (cs ! i) ''id'' = Some (JStr (conv_id conversation))
        \<and> (\<forall>j<i. own_prop (cs ! j) ''id'' \<noteq> Some (JStr (conv_id conversation)))"
  then obtain r where r: "findIndex (id_is (conv_id conversation)) cs = Inr r"
    using findIndex_no_null by blast
  have "r = Some i"
  proof (cases r)
    case None
    with r a show ?thesis using findIndex_None nth_mem by blast
  next
    case (Some k)
    from findIndex_Some [OF r [unfolded Some]] a have "k = i"
      by (meson linorder_neqE_nat)
    with Some show ?thesis by simp
  qed
  with r a have t: "t \<noteq> []" and f: "findIndex (id_is (conv_id conversation)) cs = Inr (Some i)"
    by auto
  from a t f
  show "conversations (fst (renameConversation conversation newTitle (Resolved True (Json updated)) s))
        = JArr (cs[i := updated])"
    by (simp add: renameConversation_def Let_def)
qed

theorem renameConversation_replaces_match_witness:
  "renameConversation sample_ref None (Resolved True (Json renamed_conversation)) sample_list_state
     = (sample_list_state, [])
 \<and> snd (renameConversation sample_ref (Some ''  Salutations '')
          (Resolved True (Json renamed_conversation)) sample_list_state)
     = [Request ''PUT'' ''/api/v1/conversations/c1''
          (Some (JObj [(''title'', JStr ''Salutations'')]))]
 \<and> conversations (fst (renameConversation sample_ref (Some ''  Salutations '')
          (Resolved True (Json renamed_conversation)) sample_list_state))
     = JArr [other_conversation, renamed_conversation]"
proof -
  let ?t = "''  Salutations ''"
  let ?cs = "[other_conversation, sample_conversation]"
  have tr: "trim ?t = ''Salutations''"
    by (simp add: trim_def is_white_def)
  have cs: "conversations sample_list_state = JArr ?cs"
    by (simp add: sample_list_state_def)
  have nn: "JNull \<notin> set ?cs"
    by (simp add: other_conversation_def sample_conversation_def)
  have id1: "own_prop (?cs ! 1) ''id'' = Some (JStr (conv_id sample_ref))"
    by (simp add: sample_conversation_def sample_ref_def)
  have id0: "\<forall>j<1. own_prop (?cs ! j) ''id'' \<noteq> Some (JStr (conv_id sample_ref))"
    by (simp add: other_conversation_def sample_ref_def)
  have url: "''/api/v1/conversations/'' @ conv_id sample_ref = ''/api/v1/conversations/c1''"
    by (simp add: sample_ref_def)
  note thm1 = renameConversation_replaces_match
                [of None sample_ref "Resolved True (Json renamed_conversation)" sample_list_state]
  note thm2 = renameConversation_replaces_match
                [of "Some ?t" sample_ref "Resolved True (Json renamed_conversation)" sample_list_state]
  have a: "renameConversation sample_ref None (Resolved True (Json renamed_conversation))
             sample_list_state = (sample_list_state, [])"
    using thm1 [THEN conjunct1] by simp
  have b: "snd (renameConversation sample_ref (Some ?t)
             (Resolved True (Json renamed_conversation)) sample_list_state)
           = [Request ''PUT'' ''/api/v1/conversations/c1''
                (Some (JObj [(''title'', JStr ''Salutations'')]))]"
    using thm2 [THEN conjunct2, THEN conjunct1, rule_format, of ?t] tr url by simp
  have "conversations (fst (renameConversation sample_ref (Some ?t)
             (Resolved True (Json renamed_conversation)) sample_list_state))
           = JArr (?cs[1 := renamed_conversation])"
    using thm2 [THEN conjunct2, THEN conjunct2, THEN conjunct2, rule_format,
                of ?cs ?t 1 renamed_conversation] cs nn id1 id0 tr
    by simp
  then have c: "conversations (fst (renameConversation sample_ref (Some ?t)
             (Resolved True (Json renamed_conversation)) sample_list_state))
           = JArr [other_conversation, renamed_conversation]"
    by simp
  from a b c show ?thesis by (intro conjI)
qed

subsection \<open>\<^verbatim>\<open>submitQuery\<close>\<close>

lemma conversation_url_not_chat [simp]: "conversation_url x \<noteq> ''/api/v1/chat/''"
  by (simp add: conversation_url_def)

lemma submit_try_requests:
  "chat_posts (fst (snd (submit_try r sb q s))) \<le> 1"
  by (auto simp: submit_try_def Let_def chat_posts_def tags_request_def
                 tag_preferences_request_def
           split: sum.splits fetch_result.splits body.splits option.splits sidebar.splits)

lemma submit_try_failed_requests:
  "(\<exists>m. r = Rejected m) \<or> (\<exists>b. r = Resolved False b) \<Longrightarrow>
   length (fst (snd (submit_try r sb q s))) \<le> 1"
  by (auto simp: submit_try_def Let_def
           split: sum.splits fetch_result.splits body.splits option.splits)

text \<open>
  C7.  A run of \<^verbatim>\<open>submitQuery\<close> issues at most one request to \<^verbatim>\<open>/api/v1/chat/\<close>,
  whatever the outcome of that request and whatever the state.  When the request fails
  (the fetch rejects or the response is not ok) no further request of any kind follows
  it: the request is not retried.
\<close>

theorem submitQuery_one_chat_request:
  "length (filter (\<lambda>q. req_url q = ''/api/v1/chat/'') (issued (submitQuery r sb s))) \<le> 1
 \<and> ((\<exists>m. r = Rejected m) \<or> (\<exists>b. r = Resolved False b) \<longrightarrow>
       length (issued (submitQuery r sb s)) \<le> 1)"
proof -
  have iss: "issued (submitQuery r sb s) = []
      \<or> (\<exists>q s1. issued (submitQuery r sb s) = fst (snd (submit_try r sb q s1)))"
    by (auto simp: submitQuery_def Let_def split: sum.splits option.splits)
  show ?thesis
  proof (intro conjI impI)
    show "length (filter (\<lambda>q. req_url q = ''/api/v1/chat/'') (issued (submitQuery r sb s))) \<le> 1"
      using iss submit_try_requests [of r sb] by (auto simp: chat_posts_def)
  next
    assume "(\<exists>m. r = Rejected m) \<or> (\<exists>b. r = Resolved False b)"
    then show "length (issued (submitQuery r sb s)) \<le> 1"
      using iss submit_try_failed_requests [of r sb] by auto
  qed
qed

theorem submitQuery_one_chat_request_witness:
  "issued (submitQuery bad_gateway NoSidebar sample_chat_state)
     = [Request ''POST'' ''/api/v1/chat/''
          (Some (JObj [(''query'', JStr ''What is RAG?''),
                       (''history'', JArr [hello_message, reply_message]),
                       (''tags'', JArr []), (''include_untagged'', JBool True)]))]
 \<and> length (issued (submitQuery bad_gateway NoSidebar sample_chat_state)) \<le> 1"
proof -
  have f: "(\<exists>m. bad_gateway = Rejected m) \<or> (\<exists>b. bad_gateway = Resolved False b)"
    by (simp add: bad_gateway_def)
  have i: "issued (submitQuery bad_gateway NoSidebar sample_chat_state)
     = [Request ''POST'' ''/api/v1/chat/''
          (Some (JObj [(''query'', JStr ''What is RAG?''),
                       (''history'', JArr [hello_message, reply_message]),
                       (''tags'', JArr []), (''include_untagged'', JBool True)]))]"
    by (simp add: submitQuery_def submit_try_def canSubmit_def trim_def is_white_def
                  sample_chat_state_def initial_state_def bad_gateway_def user_message_def
                  chat_request_data_def Let_def)
  show ?thesis
    using submitQuery_one_chat_request [of bad_gateway NoSidebar sample_chat_state] f i
    by blast
qed

text \<open>
  C1.  The claim holds on two of the three error paths and fails on the third.  The
  history shows two messages and a query is submitted; the POST is answered with a
  response that is not ok and whose body is not JSON.  The \<^verbatim>\<open>else\<close> branch removes the
  user message it had appended and restores the query text; \<^verbatim>\<open>response.json()\<close> then
  rejects inside the \<^verbatim>\<open>try\<close>, and the \<^verbatim>\<open>catch\<close> block removes one more message: the
  assistant's reply that was in the history before the submission is lost.
\<close>

theorem submitQuery_unparsable_error_body:
  "conversationHistory sample_chat_state = Some (JArr [hello_message, reply_message])
 \<and> queryText sample_chat_state = ''What is RAG?''
 \<and> conversationHistory (after (submitQuery bad_gateway NoSidebar sample_chat_state))
     = Some (JArr [hello_message])
 \<and> queryText (after (submitQuery bad_gateway NoSidebar sample_chat_state)) = ''What is RAG?''
 \<and> error (after (submitQuery bad_gateway NoSidebar sample_chat_state))
     = JStr ''Error submitting query: Unexpected token < in JSON at position 0''
 \<and> uncaught (submitQuery bad_gateway NoSidebar sample_chat_state) = None"
  by (simp add: submitQuery_def submit_try_def canSubmit_def trim_def is_white_def
                sample_chat_state_def initial_state_def bad_gateway_def user_message_def
                chat_request_data_def Let_def)

text \<open>
  On the other two error paths the run restores what it found: when the fetch rejects,
  and when the response is not ok and its body parses to a value other than \<^verbatim>\<open>null\<close>,
  the history and the query text are as before the submission, and the displayed error
  is the message of the rejection, respectively the body's \<^verbatim>\<open>detail\<close> when truthy and
  the generic text otherwise.
\<close>

lemma submitQuery_restores_on_error:
  assumes "canSubmit s" and "conversationHistory s = Some (JArr h)"
  shows "conversationHistory (after (submitQuery (Rejected m) sb s)) = Some (JArr h)
       \<and> queryText (after (submitQuery (Rejected m) sb s)) = queryText s
       \<and> error (after (submitQuery (Rejected m) sb s)) = JStr (''Error submitting query: '' @ m)
       \<and> (errorData \<noteq> JNull \<longrightarrow>
            conversationHistory (after (submitQuery (Resolved False (Json errorData)) sb s))
              = Some (JArr h)
          \<and> queryText (after (submitQuery (Resolved False (Json errorData)) sb s)) = queryText s
          \<and> error (after (submitQuery (Resolved False (Json errorData)) sb s))
              = (case own_prop errorData ''detail'' of
                   Some d \<Rightarrow> if truthy d then d
                             else JStr ''Failed to process query. Please try again.''
                 | None \<Rightarrow> JStr ''Failed to process query. Please try again.''))"
  using assms
  by (auto simp: submitQuery_def submit_try_def Let_def split: option.splits)

lemma submitQuery_restores_on_error_witness:
  "canSubmit sample_chat_state
 \<and> conversationHistory (after (submitQuery (Rejected ''Failed to fetch'') NoSidebar sample_chat_state))
     = conversationHistory sample_chat_state
 \<and> queryText (after (submitQuery (Rejected ''Failed to fetch'') NoSidebar sample_chat_state))
     = ''What is RAG?''
 \<and> error (after (submitQuery (Rejected ''Failed to fetch'') NoSidebar sample_chat_state))
     = JStr ''Error submitting query: Failed to fetch''
 \<and> conversationHistory
       (after (submitQuery (Resolved False (Json (JObj [(''detail'', JStr ''Model not available'')])))
                 NoSidebar sample_chat_state))
     = conversationHistory sample_chat_state
 \<and> error
       (after (submitQuery (Resolved False (Json (JObj [(''detail'', JStr ''Model not available'')])))
                 NoSidebar sample_chat_state))
     = JStr ''Model not available''"
proof -
  have can: "canSubmit sample_chat_state"
    by (simp add: canSubmit_def sample_chat_state_def trim_def is_white_def)
  have hist: "conversationHistory sample_chat_state = Some (JArr [hello_message, reply_message])"
    by (simp add: sample_chat_state_def)
  have q: "queryText sample_chat_state = ''What is RAG?''"
    by (simp add: sample_chat_state_def)
  show ?thesis
    using submitQuery_restores_on_error
            [OF can hist, of "''Failed to fetch''" NoSidebar
               "JObj [(''detail'', JStr ''Model not available'')]"]
          can hist q
    by simp
qed

text \<open>
  In general: a response that is not ok, with a body that does not parse or parses to
  \<^verbatim>\<open>null\<close>, costs the history its last message from before the submission.
\<close>

lemma submitQuery_drops_message:
  assumes "canSubmit s" and "conversationHistory s = Some (JArr h)"
  shows "conversationHistory (after (submitQuery (Resolved False (NotJson m)) sb s))
           = Some (JArr (butlast h))
       \<and> conversationHistory (after (submitQuery (Resolved False (Json JNull)) sb s))
           = Some (JArr (butlast h))"
  using assms
  by (auto simp: submitQuery_def submit_try_def Let_def split: option.splits)

section \<open>Properties of the computed tag list\<close>

lemma mset_place [simp]: "mset (place cmp x ys) = add_mset x (mset ys)"
  by (induction ys) auto

lemma mset_sort_js [simp]: "mset (sort_js cmp xs) = mset xs"
  by (induction xs) (auto simp: sort_js_def)

lemma set_place [simp]: "set (place cmp x ys) = insert x (set ys)"
  by (induction ys) auto

lemma set_sort_js [simp]: "set (sort_js cmp xs) = set xs"
  by (induction xs) (auto simp: sort_js_def)




lemma item_results [simp]:
  "map item (map (\<lambda>tag. TagResult tag None) ts) = ts"
  "map item (map (\<lambda>result. TagResult (fst result) (Some (snd result))) rs) = map fst rs"
  by (simp_all add: comp_def)





section \<open>Properties of the WebSocket client\<close>

lemma chat_loop_streamed:
  "\<forall>f\<in>set pre. streamed f \<noteq> None \<Longrightarrow>
   chat_loop acc (pre @ rest) = chat_loop (acc @ stream_text pre) rest"
proof (induction pre arbitrary: acc)
  case Nil
  then show ?case by (simp add: stream_text_def)
next
  case (Cons f pre)
  from Cons.prems have f: "streamed f \<noteq> None" and pre: "\<forall>f\<in>set pre. streamed f \<noteq> None"
    by simp_all
  from f obtain kvs ty where kvs: "f = Text (JObj kvs)" "map_of kvs ''type'' = Some ty"
    by (cases "streamed f") (auto elim!: streamed.elims split: option.splits)
  show ?case
  proof (cases "ty = JStr ''token''")
    case True
    with f kvs obtain s where s: "map_of kvs ''content'' = Some (JStr s)" "streamed f = Some s"
      by (auto split: option.splits json.splits)
    have "chat_loop acc ((f # pre) @ rest) = chat_loop (acc @ s) (pre @ rest)"
      using kvs True s by simp
    also have "\<dots> = chat_loop ((acc @ s) @ stream_text pre) rest"
      by (rule Cons.IH [OF pre])
    finally show ?thesis using s by (simp add: stream_text_def)
  next
    case False
    with f kvs have other: "ty \<noteq> JStr ''complete''" "ty \<noteq> JStr ''error''" "streamed f = Some []"
      by (auto split: if_splits)
    have "chat_loop acc ((f # pre) @ rest) = chat_loop acc (pre @ rest)"
      using kvs False other by simp
    also have "\<dots> = chat_loop (acc @ stream_text pre) rest"
      by (rule Cons.IH [OF pre])
    finally show ?thesis using other by (simp add: stream_text_def)
  qed
qed

lemma print_each_entries: "list_all source_entry xs \<Longrightarrow> print_each xs = None"
proof (induction xs)
  case Nil
  then show ?case by simp
next
  case (Cons x xs)
  then have "source_entry x" by simp
  then have "print_source x = None"
    by (auto elim!: source_entry.elims(2))
  with Cons show ?case by simp
qed

text \<open>
  C3.  Let the frames received before some frame be messages that do not end the
  exchange: token messages with a text content, or messages of a type other than
  \<^verbatim>\<open>complete\<close> and \<^verbatim>\<open>error\<close>.  The accumulated response is then the concatenation of
  the token contents in arrival order.  If the next frame is a complete message, the
  client returns its content; if it is an error message, the client returns
  \<^verbatim>\<open>None\<close>; in both cases the later frames are not received.  Without such a frame the
  client returns nothing: it is still receiving when the connection closes.
\<close>

theorem chat_websocket_stops_at_first_terminal:
  assumes "\<forall>f\<in>set pre. streamed f \<noteq> None"
  shows "(complete_message content final \<longrightarrow>
            chat_websocket (pre @ final # rest) = (Inr (Some content), stream_text pre, rest))
       \<and> (error_message final \<longrightarrow>
            chat_websocket (pre @ final # rest) = (Inr None, stream_text pre, rest))
       \<and> chat_websocket pre = (Inl ConnectionClosed, stream_text pre, [])"
proof (intro conjI impI)
  assume c: "complete_message content final"
  then obtain kvs where kvs: "final = Text (JObj kvs)"
      "map_of kvs ''type'' = Some (JStr ''complete'')" "map_of kvs ''content'' = Some content"
    by (auto elim!: complete_message.elims(2))
  with c obtain sources where src: "py_item content ''sources'' = Inr (JArr sources)"
      "list_all source_entry sources"
    by (auto split: sum.splits json.splits)
  have "chat_loop (stream_text pre) (final # rest) = (Inr (Some content), stream_text pre, rest)"
    using kvs src by (simp add: print_each_entries)
  then show "chat_websocket (pre @ final # rest) = (Inr (Some content), stream_text pre, rest)"
    using chat_loop_streamed [OF assms, of "[]" "final # rest"] by (simp add: chat_websocket_def)
next
  assume e: "error_message final"
  then obtain kvs c where kvs: "final = Text (JObj kvs)"
      "map_of kvs ''type'' = Some (JStr ''error'')" "map_of kvs ''content'' = Some c"
    by (auto elim!: error_message.elims(2))
  have "chat_loop (stream_text pre) (final # rest) = (Inr None, stream_text pre, rest)"
    using kvs by simp
  then show "chat_websocket (pre @ final # rest) = (Inr None, stream_text pre, rest)"
    using chat_loop_streamed [OF assms, of "[]" "final # rest"] by (simp add: chat_websocket_def)
next
  show "chat_websocket pre = (Inl ConnectionClosed, stream_text pre, [])"
    using chat_loop_streamed [OF assms, of "[]" "[]"] by (simp add: chat_websocket_def)
qed

theorem chat_websocket_stops_at_first_terminal_witness:
  "chat_websocket [start_frame, token_frame ''RAG '', token_frame ''is retrieval'',
                   complete_frame, token_frame ''late'']
     = (Inr (Some sample_answer), ''RAG is retrieval'', [token_frame ''late''])
 \<and> chat_websocket [start_frame, token_frame ''RAG '', token_frame ''is retrieval'',
                   error_frame, complete_frame]
     = (Inr None, ''RAG is retrieval'', [complete_frame])"
proof -
  let ?pre = "[start_frame, token_frame ''RAG '', token_frame ''is retrieval'']"
  have pre: "\<forall>f\<in>set ?pre. streamed f \<noteq> None"
    by (simp add: start_frame_def token_frame_def)
  have acc: "stream_text ?pre = ''RAG is retrieval''"
    by (simp add: stream_text_def start_frame_def token_frame_def)
  have c: "complete_message sample_answer complete_frame"
    by (simp add: complete_frame_def sample_answer_def)
  have e: "error_message error_frame"
    by (simp add: error_frame_def)
  show ?thesis
    using chat_websocket_stops_at_first_terminal
            [OF pre, of sample_answer complete_frame "[token_frame ''late'']"]
          chat_websocket_stops_at_first_terminal
            [OF pre, of sample_answer error_frame "[complete_frame]"]
          c e
    unfolding acc by simp
qed

end
